theory Spec2Isabelle
  imports Complex_Main "HOL-Library.Word"
begin

section \<open>The OpenAL output backend (sound/outputs/openal\_out.cpp)\<close>

text \<open>
  A shallow embedding of \<^verbatim>\<open>openal_out.cpp\<close>: the error gate \<^verbatim>\<open>checkALError\<close>, the format
  negotiation \<^verbatim>\<open>getALFormat\<close>, the constructor and destructor of \<^verbatim>\<open>OpenAL_Factory\<close>, and
  the constructors, the destructor and \<^verbatim>\<open>setVolume\<close> of \<^verbatim>\<open>OpenAL_Sound\<close>.

  The OpenAL library is external to the program. Every call into it is appended to a
  trace, and what the library answers is a parameter of the model (\<open>al_device\<close>).
  C++ exceptions, failed assertions and undefined behaviour are values of the type
  \<open>error\<close>; a function that may raise returns \<open>error + 'a\<close> together with the world it
  leaves behind.
\<close>

subsection \<open>Values\<close>

text \<open>
  An \<^verbatim>\<open>ALuint\<close> name of a source or buffer is a 32-bit word; where the program passes
  one as an \<^verbatim>\<open>ALint\<close> (the third argument of \<^verbatim>\<open>alSourcei\<close>) it is read as a signed
  32-bit number (\<open>sint\<close>), and a byte count passed as \<^verbatim>\<open>ALsizei\<close> likewise
  (\<open>ALsizei_of\<close>). The \<^verbatim>\<open>ALCdevice*\<close> / \<^verbatim>\<open>ALCcontext*\<close> pointers are natural numbers
  (\<open>0\<close> is the null handle); the program never computes with them. \<^verbatim>\<open>ALenum\<close> and the
  \<^verbatim>\<open>int\<close>s of \<^verbatim>\<open>getInfo\<close> are integers, only compared and passed on.
\<close>

type_synonym ALuint = "32 word"
type_synonym ALenum = int
type_synonym handle = nat

text \<open>
  A C++ \<^verbatim>\<open>float\<close>. The program only compares floats with the constants \<^verbatim>\<open>0.0\<close> and \<^verbatim>\<open>1.0\<close>
  and assigns those constants; both are exact, so a finite float is represented by the
  real number it denotes (the two zeros are not told apart), next to the infinities and
  NaN.
\<close>

datatype cfloat = Finite real | PlusInf | MinusInf | NaN

text \<open>The comparison \<^verbatim>\<open><\<close> of IEEE 754: false whenever an operand is NaN.\<close>

fun float_less :: "cfloat \<Rightarrow> cfloat \<Rightarrow> bool" where
  "float_less NaN _ = False"
| "float_less _ NaN = False"
| "float_less (Finite a) (Finite b) = (a < b)"
| "float_less (Finite _) PlusInf = True"
| "float_less (Finite _) MinusInf = False"
| "float_less PlusInf _ = False"
| "float_less MinusInf MinusInf = False"
| "float_less MinusInf _ = True"

text \<open>
  A pointer to \<^verbatim>\<open>int\<close>: null, or a block of the free store with an offset counted in
  \<^verbatim>\<open>int\<close>s. Every block made by \<^verbatim>\<open>new int\<close> holds one \<^verbatim>\<open>int\<close>, at offset \<open>0\<close>.
\<close>

datatype ptr = Null | Ptr nat int

datatype error = Str_exception string | Assertion_failed | Undefined_behaviour

subsection \<open>The OpenAL library\<close>

text \<open>
  Modelled from the spec: the constants of OpenAL's header \<^verbatim>\<open>al.h\<close>, which is not part of
  the repository. The spec calls the four format tags fixed device format tags; the
  values are those of the OpenAL 1.1 header.
\<close>

definition AL_NO_ERROR :: ALenum where "AL_NO_ERROR = 0"
definition AL_FORMAT_MONO8 :: ALenum where "AL_FORMAT_MONO8 = 0x1100"
definition AL_FORMAT_MONO16 :: ALenum where "AL_FORMAT_MONO16 = 0x1101"
definition AL_FORMAT_STEREO8 :: ALenum where "AL_FORMAT_STEREO8 = 0x1102"
definition AL_FORMAT_STEREO16 :: ALenum where "AL_FORMAT_STEREO16 = 0x1103"
definition AL_BUFFER :: ALenum where "AL_BUFFER = 0x1009"
definition AL_GAIN :: ALenum where "AL_GAIN = 0x100A"

text \<open>
  The calls the program makes. A call that hands out a handle carries the handle it
  returned (the last argument of \<open>AlcOpenDevice\<close>, \<open>AlcCreateContext\<close>, \<open>AlGenSources\<close> and
  \<open>AlGenBuffers\<close>); \<open>AlBufferData\<close> carries the bytes behind its pointer argument and their
  number.
\<close>

datatype al_call =
    AlGetError
  | AlGetString ALenum
  | AlIsExtensionPresent string
  | AlGetEnumValue string
  | AlcOpenDevice handle
  | AlcCreateContext handle handle
  | AlcMakeContextCurrent handle
  | AlcDestroyContext handle
  | AlcCloseDevice handle
  | AlGenSources ALuint
  | AlGenBuffers ALuint
  | AlBufferData ALuint int "8 word list" int int
  | AlSourcei ALuint ALenum int
  | AlSourcef ALuint ALenum cfloat
  | AlSourceStop ALuint
  | AlDeleteSources ALuint
  | AlDeleteBuffers ALuint

text \<open>
  What the library answers. Whether an extension is present and the message for an
  error code are functions of the argument. The pending error, the handles handed out
  and the value looked up for an enum name may depend on everything that was called
  before, so that the answers to two lookups of one name are told apart.
\<close>

record al_device =
  alIsExtensionPresent :: "string \<Rightarrow> bool"
  alGetEnumValue :: "al_call list \<Rightarrow> string \<Rightarrow> ALenum"
  alGetString :: "ALenum \<Rightarrow> string option"
  alGetError :: "al_call list \<Rightarrow> ALenum"
  alGenSources :: "al_call list \<Rightarrow> ALuint"
  alGenBuffers :: "al_call list \<Rightarrow> ALuint"
  alcOpenDevice :: "al_call list \<Rightarrow> handle"
  alcCreateContext :: "al_call list \<Rightarrow> handle \<Rightarrow> handle"

subsection \<open>The world: the trace of library calls and the free store\<close>

record world =
  trace :: "al_call list"
  heap :: "nat \<rightharpoonup> int"
  nextBlock :: nat

text \<open>A byte count (\<^verbatim>\<open>size()\<close>) passed as the 32-bit signed \<^verbatim>\<open>ALsizei\<close>.\<close>

definition ALsizei_of :: "nat \<Rightarrow> int" where
  "ALsizei_of n = sint (word_of_nat n :: 32 word)"

definition call :: "al_call \<Rightarrow> world \<Rightarrow> world" where
  "call c w = w\<lparr>trace := trace w @ [c]\<rparr>"

text \<open>Reading through a pointer: defined only at offset \<open>0\<close> of a live block.\<close>

fun deref :: "(nat \<rightharpoonup> int) \<Rightarrow> ptr \<Rightarrow> int option" where
  "deref h Null = None"
| "deref h (Ptr b off) = (if off = 0 then h b else None)"

text \<open>\<^verbatim>\<open>new int\<close>: a block never used before.\<close>

definition new_int :: "world \<Rightarrow> ptr \<times> world" where
  "new_int w = (Ptr (nextBlock w) 0, w\<lparr>nextBlock := Suc (nextBlock w)\<rparr>)"

fun store :: "ptr \<Rightarrow> int \<Rightarrow> world \<Rightarrow> world" where
  "store Null v w = w"
| "store (Ptr b off) v w = w\<lparr>heap := (heap w)(b \<mapsto> v)\<rparr>"

fun delete :: "ptr \<Rightarrow> world \<Rightarrow> world" where
  "delete Null w = w"
| "delete (Ptr b off) w = w\<lparr>heap := (heap w)(b := None)\<rparr>"

subsection \<open>Helper functions\<close>

text \<open>\<^verbatim>\<open>fail\<close> (lines 11-12) throws; the model returns the exception it throws.\<close>

definition fail :: "string \<Rightarrow> error" where
  "fail msg = Str_exception (''OpenAL exception: '' @ msg)"

text \<open>
  \<^verbatim>\<open>checkALError\<close> (lines 24-37). \<^verbatim>\<open>alGetString\<close> is called twice when it answers a
  message; \<^verbatim>\<open>std::string\<close> of a null pointer would be undefined.
\<close>

definition checkALError :: "al_device \<Rightarrow> string \<Rightarrow> world \<Rightarrow> (error + unit) \<times> world" where
  "checkALError dev whr w =
     (let err = alGetError dev (trace w);
          w1 = call AlGetError w
      in if err \<noteq> AL_NO_ERROR then
           (let msg = whr;
                errmsg = alGetString dev err;
                w2 = call (AlGetString err) w1
            in case errmsg of
                 Some _ \<Rightarrow>
                   (case alGetString dev err of
                      Some m \<Rightarrow>
                        (Inl (fail ([CHR 0x22] @ m @ [CHR 0x22] @ '' while '' @ msg)),
                         call (AlGetString err) w2)
                    | None \<Rightarrow> (Inl Undefined_behaviour, call (AlGetString err) w2))
               | None \<Rightarrow>
                   (Inl (fail (''non-specified error while '' @ msg
                               @ '' (did you forget to initialize OpenAL?)'')), w2))
         else (Inr (), w1))"

text \<open>
  The sample source, as far as the program looks at it: the three numbers of \<^verbatim>\<open>getInfo\<close>,
  the flag \<^verbatim>\<open>hasPtr\<close> and the bytes of the stream.
\<close>

record SampleSource =
  rate :: int
  channels :: int
  bits :: int
  hasPtr :: bool
  samples :: "8 word list"

text \<open>
  \<^verbatim>\<open>getALFormat\<close> (lines 39-70), block by block: the 8-bit block (lines 46-55), the 16-bit
  block (lines 56-66), and the whole function with the final test of \<^verbatim>\<open>fmt\<close>.
\<close>

definition getALFormat_bits8 :: "al_device \<Rightarrow> int \<Rightarrow> int \<Rightarrow> world \<Rightarrow> int \<times> world" where
  "getALFormat_bits8 dev ch fmt0 w0 =
     (let fmt1 = (if ch = 1 then AL_FORMAT_MONO8 else fmt0);
          fmt2 = (if ch = 2 then AL_FORMAT_STEREO8 else fmt1);
          w1 = call (AlIsExtensionPresent ''AL_EXT_MCFORMATS'') w0
      in if alIsExtensionPresent dev ''AL_EXT_MCFORMATS'' then
           (let fmt3 = (if ch = 4 then alGetEnumValue dev (trace w1) ''AL_FORMAT_QUAD8''
                        else fmt2);
                w2 = (if ch = 4 then call (AlGetEnumValue ''AL_FORMAT_QUAD8'') w1 else w1);
                fmt4 = (if ch = 6 then alGetEnumValue dev (trace w2) ''AL_FORMAT_51CHN8''
                        else fmt3);
                w3 = (if ch = 6 then call (AlGetEnumValue ''AL_FORMAT_51CHN8'') w2 else w2)
            in (fmt4, w3))
         else (fmt2, w1))"

definition getALFormat_bits16 :: "al_device \<Rightarrow> int \<Rightarrow> int \<Rightarrow> world \<Rightarrow> int \<times> world" where
  "getALFormat_bits16 dev ch fmt0 w0 =
     (let fmt1 = (if ch = 1 then AL_FORMAT_MONO16 else fmt0);
          fmt2 = (if ch = 2 then AL_FORMAT_STEREO16 else fmt1);
          fmt3 = (if ch = 4 then alGetEnumValue dev (trace w0) ''AL_FORMAT_QUAD16''
                  else fmt2);
          w1 = (if ch = 4 then call (AlGetEnumValue ''AL_FORMAT_QUAD16'') w0 else w0);
          w2 = call (AlIsExtensionPresent ''AL_EXT_MCFORMATS'') w1
      in if alIsExtensionPresent dev ''AL_EXT_MCFORMATS'' then
           (let fmt4 = (if ch = 4 then alGetEnumValue dev (trace w2) ''AL_FORMAT_QUAD16''
                        else fmt3);
                w3 = (if ch = 4 then call (AlGetEnumValue ''AL_FORMAT_QUAD16'') w2 else w2);
                fmt5 = (if ch = 6 then alGetEnumValue dev (trace w3) ''AL_FORMAT_51CHN16''
                        else fmt4);
                w4 = (if ch = 6 then call (AlGetEnumValue ''AL_FORMAT_51CHN16'') w3 else w3)
            in (fmt5, w4))
         else (fmt3, w2))"

text \<open>The value of \<^verbatim>\<open>fmt\<close> when line 68 is reached (lines 41-66).\<close>

definition getALFormat_fmt :: "al_device \<Rightarrow> SampleSource \<Rightarrow> world \<Rightarrow> int \<times> world" where
  "getALFormat_fmt dev inp w0 =
     (let ch = channels inp;
          bits = bits inp;
          fmt = 0;
          (fmt, w1) = (if bits = 8 then getALFormat_bits8 dev ch fmt w0 else (fmt, w0));
          (fmt, w2) = (if bits = 16 then getALFormat_bits16 dev ch fmt w1 else (fmt, w1))
      in (fmt, w2))"

text \<open>The result is the pair of the output parameters \<^verbatim>\<open>fmt\<close> and \<^verbatim>\<open>rate\<close>.\<close>

definition getALFormat :: "al_device \<Rightarrow> SampleSource \<Rightarrow> world \<Rightarrow> (error + int \<times> int) \<times> world" where
  "getALFormat dev inp w0 =
     (let (fmt, w1) = getALFormat_fmt dev inp w0
      in if fmt = 0 then (Inl (fail ''Unsupported input format''), w1)
         else (Inr (fmt, rate inp), w1))"

subsection \<open>\<^verbatim>\<open>OpenAL_Factory\<close>\<close>

text \<open>
  The members \<^verbatim>\<open>Device\<close> and \<^verbatim>\<open>Context\<close> are written only when setup is done; \<open>None\<close> is
  a member that was never written, and reading it is undefined.
\<close>

record OpenAL_Factory =
  didSetup :: bool
  needsUpdate :: bool
  has3D :: bool
  canLoadFile :: bool
  canLoadStream :: bool
  canLoadSource :: bool
  Device :: "handle option"
  Context :: "handle option"

text \<open>
  The constructor (lines 74-94). When it throws, no object exists afterwards and the
  destructor never runs.
\<close>

definition OpenAL_Factory_ctor ::
  "al_device \<Rightarrow> bool \<Rightarrow> world \<Rightarrow> (error + OpenAL_Factory) \<times> world" where
  "OpenAL_Factory_ctor dev doSetup w0 =
     (let this = \<lparr>didSetup = doSetup, needsUpdate = False, has3D = True,
                  canLoadFile = False, canLoadStream = False, canLoadSource = True,
                  Device = None, Context = None\<rparr>
      in if doSetup then
           (let d = alcOpenDevice dev (trace w0);
                w1 = call (AlcOpenDevice d) w0;
                c = alcCreateContext dev (trace w1) d;
                w2 = call (AlcCreateContext d c) w1
            in if d = 0 \<or> c = 0 then
                 (Inl (fail ''Failed to initialize context or device''), w2)
               else
                 (Inr (this\<lparr>Device := Some d, Context := Some c\<rparr>),
                  call (AlcMakeContextCurrent c) w2))
         else (Inr this, w0))"

text \<open>The destructor (lines 96-105).\<close>

definition OpenAL_Factory_dtor :: "OpenAL_Factory \<Rightarrow> world \<Rightarrow> (error + unit) \<times> world" where
  "OpenAL_Factory_dtor this w0 =
     (if didSetup this then
        (let w1 = call (AlcMakeContextCurrent 0) w0
         in case Context this of
              None \<Rightarrow> (Inl Undefined_behaviour, w1)
            | Some c \<Rightarrow>
                (let w2 = (if c \<noteq> 0 then call (AlcDestroyContext c) w1 else w1)
                 in case Device this of
                      None \<Rightarrow> (Inl Undefined_behaviour, w2)
                    | Some d \<Rightarrow>
                        (Inr (), if d \<noteq> 0 then call (AlcCloseDevice d) w2 else w2)))
      else (Inr (), w0))"

subsection \<open>\<^verbatim>\<open>OpenAL_Sound\<close>\<close>

record OpenAL_Sound =
  bufferID :: ALuint
  refCnt :: ptr
  inst :: ALuint

text \<open>\<^verbatim>\<open>setVolume\<close> (lines 135-141).\<close>

definition OpenAL_Sound_setVolume ::
  "al_device \<Rightarrow> OpenAL_Sound \<Rightarrow> cfloat \<Rightarrow> world \<Rightarrow> (error + unit) \<times> world" where
  "OpenAL_Sound_setVolume dev this volume0 w0 =
     (let volume1 = (if float_less (Finite 1) volume0 then Finite 1 else volume0);
          volume2 = (if float_less volume1 (Finite 0) then Finite 0 else volume1);
          w1 = call (AlSourcef (inst this) AL_GAIN volume2) w0
      in checkALError dev ''setting volume'' w1)"

text \<open>
  The constructor used for cloned sounds (lines 173-185). Line 178 reads
  \<^verbatim>\<open>*refCnt++;\<close>. The postfix increment binds tighter than the indirection, so the
  statement is \<^verbatim>\<open>*(refCnt++);\<close>: the member \<^verbatim>\<open>refCnt\<close> is moved on by one \<^verbatim>\<open>int\<close> and the
  \<^verbatim>\<open>int\<close> it pointed to is neither read nor written. Moving a pointer on is defined
  only when it points to an object.
\<close>

definition OpenAL_Sound_clone_ctor ::
  "al_device \<Rightarrow> ALuint \<Rightarrow> ptr \<Rightarrow> world \<Rightarrow> (error + OpenAL_Sound) \<times> world" where
  "OpenAL_Sound_clone_ctor dev buf ref w0 =
     (case ref of
        Null \<Rightarrow> (Inl Assertion_failed, w0)
      | Ptr b off \<Rightarrow>
          if deref (heap w0) ref = None then (Inl Undefined_behaviour, w0)
          else
            (let refCnt1 = Ptr b (off + 1);
                 i = alGenSources dev (trace w0);
                 w1 = call (AlGenSources i) w0;
                 (r1, w2) = checkALError dev ''creating instance (clone)'' w1
             in case r1 of
                  Inl e \<Rightarrow> (Inl e, w2)
                | Inr _ \<Rightarrow>
                    (let w3 = call (AlSourcei i AL_BUFFER (sint buf)) w2;
                         (r2, w4) = checkALError dev ''assigning buffer (clone)'' w3
                     in case r2 of
                          Inl e \<Rightarrow> (Inl e, w4)
                        | Inr _ \<Rightarrow>
                            (Inr \<lparr>bufferID = buf, refCnt = refCnt1, inst = i\<rparr>, w4))))"

text \<open>\<^verbatim>\<open>clone\<close> (lines 167-170).\<close>

definition OpenAL_Sound_clone ::
  "al_device \<Rightarrow> OpenAL_Sound \<Rightarrow> world \<Rightarrow> (error + OpenAL_Sound) \<times> world" where
  "OpenAL_Sound_clone dev this w = OpenAL_Sound_clone_ctor dev (bufferID this) (refCnt this) w"

text \<open>
  Modelled from the spec: \<^verbatim>\<open>Mangle::Stream::BufferStream\<close> (buffer\_stream.hpp, not under
  src/), the adapter that materializes an entire stream into one contiguous block; its
  \<^verbatim>\<open>getPtr\<close> and \<^verbatim>\<open>size\<close> give the bytes of the stream and their number.
\<close>

definition BufferStream :: "SampleSource \<Rightarrow> 8 word list" where
  "BufferStream input = samples input"

text \<open>The constructor used for original sounds (lines 188-225).\<close>

definition OpenAL_Sound_ctor ::
  "al_device \<Rightarrow> SampleSource \<Rightarrow> world \<Rightarrow> (error + OpenAL_Sound) \<times> world" where
  "OpenAL_Sound_ctor dev input w0 =
     (let (r0, w1) = getALFormat dev input w0
      in case r0 of
           Inl e \<Rightarrow> (Inl e, w1)
         | Inr (fmt, rt) \<Rightarrow>
             (let buf = alGenBuffers dev (trace w1);
                  w2 = call (AlGenBuffers buf) w1;
                  (r1, w3) = checkALError dev ''generating buffer'' w2
              in case r1 of
                   Inl e \<Rightarrow> (Inl e, w3)
                 | Inr _ \<Rightarrow>
                     if buf = 0 then (Inl Assertion_failed, w3)
                     else
                       (let w4 = (if hasPtr input
                                  then call (AlBufferData buf fmt (samples input)
                                               (ALsizei_of (length (samples input))) rt) w3
                                  else (let b = BufferStream input
                                        in call (AlBufferData buf fmt b
                                                   (ALsizei_of (length b)) rt) w3));
                            (r2, w5) = checkALError dev ''loading sound buffer'' w4
                        in case r2 of
                             Inl e \<Rightarrow> (Inl e, w5)
                           | Inr _ \<Rightarrow>
                               (let i = alGenSources dev (trace w5);
                                    w6 = call (AlGenSources i) w5;
                                    (r3, w7) = checkALError dev ''creating source'' w6
                                in case r3 of
                                     Inl e \<Rightarrow> (Inl e, w7)
                                   | Inr _ \<Rightarrow>
                                       (let w8 = call (AlSourcei i AL_BUFFER (sint buf)) w7;
                                            (r4, w9) = checkALError dev ''assigning buffer'' w8
                                        in case r4 of
                                             Inl e \<Rightarrow> (Inl e, w9)
                                           | Inr _ \<Rightarrow>
                                               (let (p, w10) = new_int w9;
                                                    w11 = store p 1 w10
                                                in (Inr \<lparr>bufferID = buf, refCnt = p, inst = i\<rparr>,
                                                    w11)))))))"

text \<open>
  The destructor (lines 227-244). \<^verbatim>\<open>-- *refCnt\<close> reads and writes through the pointer,
  which is undefined unless it points to a live \<^verbatim>\<open>int\<close>, and overflows at the least
  \<^verbatim>\<open>int\<close>. When \<^verbatim>\<open>checkALError\<close> throws, \<^verbatim>\<open>delete refCnt\<close> is not reached.
\<close>

definition OpenAL_Sound_dtor ::
  "al_device \<Rightarrow> OpenAL_Sound \<Rightarrow> world \<Rightarrow> (error + unit) \<times> world" where
  "OpenAL_Sound_dtor dev this w0 =
     (let w1 = call (AlSourceStop (inst this)) w0;
          w2 = call (AlDeleteSources (inst this)) w1
      in case deref (heap w2) (refCnt this) of
           None \<Rightarrow> (Inl Undefined_behaviour, w2)
         | Some n \<Rightarrow>
             if n = - (2 ^ 31) then (Inl Undefined_behaviour, w2)
             else
               (let w3 = store (refCnt this) (n - 1) w2
                in if n - 1 = 0 then
                     (let w4 = call (AlDeleteBuffers (bufferID this)) w3;
                          (r, w5) = checkALError dev ''deleting buffer'' w4
                      in case r of
                           Inl e \<Rightarrow> (Inl e, w5)
                         | Inr _ \<Rightarrow> (Inr (), delete (refCnt this) w5))
                   else (Inr (), w3)))"

subsection \<open>Observations on a trace\<close>

text \<open>
  The device and context handles that are live after a trace: handed out non-null by
  \<^verbatim>\<open>alcOpenDevice\<close> / \<^verbatim>\<open>alcCreateContext\<close> and not yet given to \<^verbatim>\<open>alcCloseDevice\<close> /
  \<^verbatim>\<open>alcDestroyContext\<close>.
\<close>

fun live_step :: "al_call \<Rightarrow> handle set \<times> handle set \<Rightarrow> handle set \<times> handle set" where
  "live_step (AlcOpenDevice d) (ds, cs) = ((if d = 0 then ds else insert d ds), cs)"
| "live_step (AlcCloseDevice d) (ds, cs) = (ds - {d}, cs)"
| "live_step (AlcCreateContext _ c) (ds, cs) = (ds, (if c = 0 then cs else insert c cs))"
| "live_step (AlcDestroyContext c) (ds, cs) = (ds, cs - {c})"
| "live_step _ s = s"

definition live_devices :: "al_call list \<Rightarrow> handle set" where
  "live_devices tr = fst (fold live_step tr ({}, {}))"

definition live_contexts :: "al_call list \<Rightarrow> handle set" where
  "live_contexts tr = snd (fold live_step tr ({}, {}))"

text \<open>
  The clamp in the words of the spec, \<open>min(max(v, 0.0), 1.0)\<close>, with the \<^verbatim>\<open>std::max\<close> and
  \<^verbatim>\<open>std::min\<close> of C++ (\<^verbatim>\<open>(a < b) ? b : a\<close> and \<^verbatim>\<open>(b < a) ? b : a\<close>).
\<close>

definition float_max :: "cfloat \<Rightarrow> cfloat \<Rightarrow> cfloat" where
  "float_max a b = (if float_less a b then b else a)"

definition float_min :: "cfloat \<Rightarrow> cfloat \<Rightarrow> cfloat" where
  "float_min a b = (if float_less b a then b else a)"

definition clamp_spec :: "cfloat \<Rightarrow> cfloat" where
  "clamp_spec v = float_min (float_max v (Finite 0)) (Finite 1)"

subsection \<open>Example devices, inputs and states\<close>

definition AL_INVALID_OPERATION :: ALenum where "AL_INVALID_OPERATION = 0xA004"

text \<open>
  A device with or without the multichannel extension, a given answer to the lookup of
  \<^verbatim>\<open>AL_FORMAT_QUAD16\<close> and a given pending error after each history, a message for the
  error \<^verbatim>\<open>AL_INVALID_OPERATION\<close> only, and given device and context handles. The first
  source it hands out is \<open>15\<close>, every later one \<open>19\<close>.
\<close>

definition example_device ::
  "bool \<Rightarrow> (al_call list \<Rightarrow> ALenum) \<Rightarrow> (al_call list \<Rightarrow> ALenum) \<Rightarrow> handle \<Rightarrow> handle
     \<Rightarrow> al_device" where
  "example_device ext quad16 err d c =
     \<lparr>alIsExtensionPresent = (\<lambda>name. ext \<and> name = ''AL_EXT_MCFORMATS''),
      alGetEnumValue = (\<lambda>tr name. if name = ''AL_FORMAT_QUAD16'' then quad16 tr else 0),
      alGetString = (\<lambda>e. if e = AL_INVALID_OPERATION then Some ''Invalid Operation'' else None),
      alGetError = err,
      alGenSources = (\<lambda>tr. if AlGenSources 15 \<in> set tr then 19 else 15),
      alGenBuffers = (\<lambda>tr. 1),
      alcOpenDevice = (\<lambda>tr. d),
      alcCreateContext = (\<lambda>tr _. c)\<rparr>"

definition quiet_device :: al_device where
  "quiet_device = example_device False (\<lambda>tr. 0) (\<lambda>tr. AL_NO_ERROR) 1 2"

definition mc_device :: al_device where
  "mc_device = example_device True (\<lambda>tr. 0x1205) (\<lambda>tr. AL_NO_ERROR) 1 2"

text \<open>
  A device with the extension that answers the lookup of \<^verbatim>\<open>AL_FORMAT_QUAD16\<close> with \<open>0\<close>
  until it has been asked for the extension, and with \<open>0x1205\<close> afterwards.
\<close>

definition late_quad_device :: al_device where
  "late_quad_device =
     example_device True
       (\<lambda>tr. if AlIsExtensionPresent ''AL_EXT_MCFORMATS'' \<in> set tr then 0x1205 else 0)
       (\<lambda>tr. AL_NO_ERROR) 1 2"

definition quad_device :: al_device where
  "quad_device = example_device False (\<lambda>tr. 0x1205) (\<lambda>tr. AL_NO_ERROR) 1 2"

definition unnamed_error_device :: al_device where
  "unnamed_error_device = example_device False (\<lambda>tr. 0) (\<lambda>tr. 0xA001) 1 2"

text \<open>A device that reports an error once buffer \<open>1\<close> has been given to \<^verbatim>\<open>alDeleteBuffers\<close>.\<close>

definition rejecting_device :: al_device where
  "rejecting_device =
     example_device False (\<lambda>tr. 0)
       (\<lambda>tr. if AlDeleteBuffers 1 \<in> set tr then AL_INVALID_OPERATION else AL_NO_ERROR) 1 2"

text \<open>
  A device on which stopping source \<open>15\<close> raises an error, which stays pending until it
  is asked for.
\<close>

definition stop_error_device :: al_device where
  "stop_error_device =
     example_device False (\<lambda>tr. 0)
       (\<lambda>tr. if AlSourceStop 15 \<in> set (takeWhile (\<lambda>c. c \<noteq> AlGetError) (rev tr))
             then AL_INVALID_OPERATION else AL_NO_ERROR) 1 2"

text \<open>A device that opens but cannot create a context.\<close>

definition no_context_device :: al_device where
  "no_context_device = example_device False (\<lambda>tr. 0) (\<lambda>tr. AL_NO_ERROR) 1 0"

definition empty_world :: world where
  "empty_world = \<lparr>trace = [], heap = Map.empty, nextBlock = 0\<rparr>"

definition pcm_source :: "int \<Rightarrow> int \<Rightarrow> SampleSource" where
  "pcm_source ch b =
     \<lparr>rate = 22050, channels = ch, bits = b, hasPtr = True, samples = [0x80, 0x7F]\<rparr>"

definition mono8_source :: SampleSource where
  "mono8_source = pcm_source 1 8"

definition quad16_source :: SampleSource where
  "quad16_source = \<lparr>rate = 44100, channels = 4, bits = 16, hasPtr = False, samples = []\<rparr>"

text \<open>
  The sound \<open>sound_A\<close> and the world \<open>world_A\<close> that the constructor for original sounds
  yields from \<open>mono8_source\<close> on \<open>quiet_device\<close> (lemma \<open>ctor_example\<close>); its clone
  \<open>sound_B\<close> and the world \<open>world_AB\<close> after cloning; the world \<open>world_B\<close> after
  \<open>sound_A\<close> has then been destroyed.
\<close>

definition sound_A :: OpenAL_Sound where
  "sound_A = \<lparr>bufferID = 1, refCnt = Ptr 0 0, inst = 15\<rparr>"

definition world_A :: world where
  "world_A =
     \<lparr>trace = [AlIsExtensionPresent ''AL_EXT_MCFORMATS'', AlGenBuffers 1, AlGetError,
               AlBufferData 1 0x1100 [0x80, 0x7F] 2 22050, AlGetError, AlGenSources 15,
               AlGetError, AlSourcei 15 0x1009 1, AlGetError],
      heap = [0 \<mapsto> 1], nextBlock = 1\<rparr>"

definition sound_B :: OpenAL_Sound where
  "sound_B = \<lparr>bufferID = 1, refCnt = Ptr 0 1, inst = 19\<rparr>"

definition world_AB :: world where
  "world_AB =
     world_A\<lparr>trace := trace world_A @ [AlGenSources 19, AlGetError,
                                       AlSourcei 19 0x1009 1, AlGetError]\<rparr>"

definition world_B :: world where
  "world_B =
     \<lparr>trace = trace world_AB @ [AlSourceStop 15, AlDeleteSources 15, AlDeleteBuffers 1,
                                AlGetError],
      heap = Map.empty, nextBlock = 1\<rparr>"

definition factory_A :: OpenAL_Factory where
  "factory_A =
     \<lparr>didSetup = True, needsUpdate = False, has3D = True, canLoadFile = False,
      canLoadStream = False, canLoadSource = True, Device = Some 1, Context = Some 2\<rparr>"

definition factory_B :: OpenAL_Factory where
  "factory_B =
     \<lparr>didSetup = False, needsUpdate = False, has3D = True, canLoadFile = False,
      canLoadStream = False, canLoadSource = True, Device = None, Context = None\<rparr>"

definition world_F :: world where
  "world_F =
     empty_world\<lparr>trace := [AlcOpenDevice 1, AlcCreateContext 1 2, AlcMakeContextCurrent 2]\<rparr>"

section \<open>Properties\<close>

lemmas al_consts = AL_NO_ERROR_def AL_FORMAT_MONO8_def AL_FORMAT_MONO16_def
  AL_FORMAT_STEREO8_def AL_FORMAT_STEREO16_def

lemmas getALFormat_defs = getALFormat_def getALFormat_fmt_def getALFormat_bits8_def
  getALFormat_bits16_def Let_def

lemmas example_defs = quiet_device_def example_device_def empty_world_def mono8_source_def
  pcm_source_def sound_A_def world_A_def

subsection \<open>The error gate\<close>

lemma checkALError_trace_prefix:
  "\<exists>rest. trace (snd (checkALError dev d w)) = trace w @ AlGetError # rest"
  by (simp add: checkALError_def Let_def call_def split: option.splits)

lemma checkALError_heap: "heap (snd (checkALError dev d w)) = heap w"
  by (simp add: checkALError_def Let_def call_def split: option.splits)

lemma checkALError_returns_iff:
  "(fst (checkALError dev d w) = Inr ()) = (alGetError dev (trace w) = AL_NO_ERROR)"
  by (simp add: checkALError_def Let_def split: option.splits)

text \<open>
  C5. The gate with description \<open>d\<close>: when the device reports no pending error it returns
  normally, having only asked for the error; when an error is pending and the device has
  a message \<open>m\<close> for it, it fails with the message \<^verbatim>\<open>OpenAL exception: "m" while d\<close>; when an
  error is pending and the device has no message, it fails with
  \<^verbatim>\<open>OpenAL exception: non-specified error while d (did you forget to initialize OpenAL?)\<close>.
\<close>

theorem checkALError_outcomes:
  "(alGetError dev (trace w) = AL_NO_ERROR \<longrightarrow>
      checkALError dev d w = (Inr (), call AlGetError w)) \<and>
   (alGetError dev (trace w) \<noteq> AL_NO_ERROR
      \<and> alGetString dev (alGetError dev (trace w)) = Some m \<longrightarrow>
      fst (checkALError dev d w)
        = Inl (Str_exception (''OpenAL exception: '' @ [CHR 0x22] @ m @ [CHR 0x22]
                              @ '' while '' @ d))) \<and>
   (alGetError dev (trace w) \<noteq> AL_NO_ERROR
      \<and> alGetString dev (alGetError dev (trace w)) = None \<longrightarrow>
      fst (checkALError dev d w)
        = Inl (Str_exception (''OpenAL exception: non-specified error while '' @ d
                              @ '' (did you forget to initialize OpenAL?)'')))"
  by (simp add: checkALError_def Let_def fail_def)

text \<open>
  C5, at concrete inputs: a device with no pending error, a device with the pending error
  \<^verbatim>\<open>AL_INVALID_OPERATION\<close> and its message, and a device with a pending error it has no
  message for.
\<close>

theorem checkALError_outcomes_witness:
  "alGetError quiet_device (trace empty_world) = AL_NO_ERROR
   \<and> checkALError quiet_device ''starting playback'' empty_world
       = (Inr (), call AlGetError empty_world)
   \<and> alGetError rejecting_device [AlDeleteBuffers 1] \<noteq> AL_NO_ERROR
   \<and> alGetString rejecting_device (alGetError rejecting_device [AlDeleteBuffers 1])
       = Some ''Invalid Operation''
   \<and> fst (checkALError rejecting_device ''deleting buffer''
            (empty_world\<lparr>trace := [AlDeleteBuffers 1]\<rparr>))
       = Inl (Str_exception (''OpenAL exception: '' @ [CHR 0x22] @ ''Invalid Operation''
                             @ [CHR 0x22] @ '' while deleting buffer''))
   \<and> alGetError unnamed_error_device (trace empty_world) \<noteq> AL_NO_ERROR
   \<and> alGetString unnamed_error_device (alGetError unnamed_error_device (trace empty_world))
       = None
   \<and> fst (checkALError unnamed_error_device ''pausing'' empty_world)
       = Inl (Str_exception ''OpenAL exception: non-specified error while pausing (did you forget to initialize OpenAL?)'')"
proof -
  have a: "alGetError quiet_device (trace empty_world) = AL_NO_ERROR"
    by (simp add: quiet_device_def example_device_def)
  have b: "alGetError rejecting_device (trace (empty_world\<lparr>trace := [AlDeleteBuffers 1]\<rparr>))
             \<noteq> AL_NO_ERROR"
    "alGetString rejecting_device
       (alGetError rejecting_device (trace (empty_world\<lparr>trace := [AlDeleteBuffers 1]\<rparr>)))
       = Some ''Invalid Operation''"
    by (simp_all add: rejecting_device_def example_device_def AL_INVALID_OPERATION_def
        AL_NO_ERROR_def)
  have c: "alGetError unnamed_error_device (trace empty_world) \<noteq> AL_NO_ERROR"
    "alGetString unnamed_error_device (alGetError unnamed_error_device (trace empty_world))
       = None"
    by (simp_all add: unnamed_error_device_def example_device_def AL_INVALID_OPERATION_def
        AL_NO_ERROR_def)
  show ?thesis
    using a b c
      checkALError_outcomes [of quiet_device empty_world "''starting playback''"]
      checkALError_outcomes [of rejecting_device "empty_world\<lparr>trace := [AlDeleteBuffers 1]\<rparr>"
            "''deleting buffer''" "''Invalid Operation''"]
      checkALError_outcomes [of unnamed_error_device empty_world "''pausing''"]
    by simp
qed

subsection \<open>Format negotiation\<close>

text \<open>
  C3. For a source with (channels, bits) one of (1,8), (2,8), (1,16), (2,16), format
  resolution succeeds with the fixed tag for 8-bit mono, 8-bit stereo, 16-bit mono or
  16-bit stereo and the rate the source states, whatever the device; whenever no tag was
  resolved (\<^verbatim>\<open>fmt\<close> is still \<open>0\<close> at line 68) it fails with
  \<^verbatim>\<open>OpenAL exception: Unsupported input format\<close>; and no tag is resolved for (3,8) and
  for (5,16), with or without the multichannel extension.
\<close>

theorem getALFormat_fixed_tags:
  "(channels inp = 1 \<and> bits inp = 8 \<longrightarrow>
      fst (getALFormat dev inp w) = Inr (AL_FORMAT_MONO8, rate inp)) \<and>
   (channels inp = 2 \<and> bits inp = 8 \<longrightarrow>
      fst (getALFormat dev inp w) = Inr (AL_FORMAT_STEREO8, rate inp)) \<and>
   (channels inp = 1 \<and> bits inp = 16 \<longrightarrow>
      fst (getALFormat dev inp w) = Inr (AL_FORMAT_MONO16, rate inp)) \<and>
   (channels inp = 2 \<and> bits inp = 16 \<longrightarrow>
      fst (getALFormat dev inp w) = Inr (AL_FORMAT_STEREO16, rate inp)) \<and>
   (fst (getALFormat_fmt dev inp w) = 0 \<longrightarrow>
      fst (getALFormat dev inp w)
        = Inl (Str_exception ''OpenAL exception: Unsupported input format'')) \<and>
   (channels inp = 3 \<and> bits inp = 8 \<longrightarrow> fst (getALFormat_fmt dev inp w) = 0) \<and>
   (channels inp = 5 \<and> bits inp = 16 \<longrightarrow> fst (getALFormat_fmt dev inp w) = 0)"
  by (simp add: getALFormat_defs al_consts fail_def split_def)

text \<open>
  C3, at concrete inputs: the four supported combinations and (3,8) on a device without
  the extension, and (5,16) on a device with it.
\<close>

theorem getALFormat_fixed_tags_witness:
  "fst (getALFormat quiet_device (pcm_source 1 8) empty_world) = Inr (0x1100, 22050)
   \<and> fst (getALFormat quiet_device (pcm_source 2 8) empty_world) = Inr (0x1102, 22050)
   \<and> fst (getALFormat quiet_device (pcm_source 1 16) empty_world) = Inr (0x1101, 22050)
   \<and> fst (getALFormat quiet_device (pcm_source 2 16) empty_world) = Inr (0x1103, 22050)
   \<and> fst (getALFormat quiet_device (pcm_source 3 8) empty_world)
       = Inl (Str_exception ''OpenAL exception: Unsupported input format'')
   \<and> fst (getALFormat mc_device (pcm_source 5 16) empty_world)
       = Inl (Str_exception ''OpenAL exception: Unsupported input format'')"
  using getALFormat_fixed_tags [of "pcm_source 1 8" quiet_device empty_world]
    getALFormat_fixed_tags [of "pcm_source 2 8" quiet_device empty_world]
    getALFormat_fixed_tags [of "pcm_source 1 16" quiet_device empty_world]
    getALFormat_fixed_tags [of "pcm_source 2 16" quiet_device empty_world]
    getALFormat_fixed_tags [of "pcm_source 3 8" quiet_device empty_world]
    getALFormat_fixed_tags [of "pcm_source 5 16" mc_device empty_world]
  by (simp add: pcm_source_def al_consts)

text \<open>
  C4. With the multichannel extension present and a 16-bit source of 4 channels, the tag
  is looked up and assigned twice, before and after the extension test (the trace shows
  both lookups), and the assignment in the extension branch wins: the tag that line 68
  sees is the answer to the second lookup of \<^verbatim>\<open>AL_FORMAT_QUAD16\<close>. The first assignment
  alone (the same device with the extension taken away) yields the answer to the first
  lookup. When the device answers both lookups alike, as a lookup by name does, the
  resolved tag and the result of the function are identical either way.
\<close>

theorem getALFormat_quad16_double_assignment:
  assumes "alIsExtensionPresent dev ''AL_EXT_MCFORMATS''"
    and "channels inp = 4" and "bits inp = 16"
  shows "trace (snd (getALFormat_fmt dev inp w))
           = trace w @ [AlGetEnumValue ''AL_FORMAT_QUAD16'',
                        AlIsExtensionPresent ''AL_EXT_MCFORMATS'',
                        AlGetEnumValue ''AL_FORMAT_QUAD16'']
         \<and> fst (getALFormat_fmt dev inp w)
             = alGetEnumValue dev (trace w @ [AlGetEnumValue ''AL_FORMAT_QUAD16'',
                                              AlIsExtensionPresent ''AL_EXT_MCFORMATS''])
                 ''AL_FORMAT_QUAD16''
         \<and> fst (getALFormat_fmt (dev\<lparr>alIsExtensionPresent := \<lambda>_. False\<rparr>) inp w)
             = alGetEnumValue dev (trace w) ''AL_FORMAT_QUAD16''
         \<and> (alGetEnumValue dev (trace w @ [AlGetEnumValue ''AL_FORMAT_QUAD16'',
                                           AlIsExtensionPresent ''AL_EXT_MCFORMATS''])
               ''AL_FORMAT_QUAD16''
             = alGetEnumValue dev (trace w) ''AL_FORMAT_QUAD16'' \<longrightarrow>
               fst (getALFormat_fmt dev inp w)
                 = fst (getALFormat_fmt (dev\<lparr>alIsExtensionPresent := \<lambda>_. False\<rparr>) inp w)
               \<and> fst (getALFormat dev inp w)
                   = fst (getALFormat (dev\<lparr>alIsExtensionPresent := \<lambda>_. False\<rparr>) inp w))"
  using assms by (simp add: getALFormat_defs al_consts fail_def split_def call_def)

text \<open>
  C4, on a device with the extension whose quad-16 tag is \<open>0x1205\<close> at both lookups
  (the tag is the same with the first assignment alone), and on a device that answers
  \<open>0\<close> to the first lookup and \<open>0x1205\<close> to the second (the second answer is the tag).
\<close>

theorem getALFormat_quad16_double_assignment_witness:
  "alIsExtensionPresent mc_device ''AL_EXT_MCFORMATS''
   \<and> channels quad16_source = 4 \<and> bits quad16_source = 16
   \<and> alGetEnumValue mc_device
        (trace empty_world @ [AlGetEnumValue ''AL_FORMAT_QUAD16'',
                              AlIsExtensionPresent ''AL_EXT_MCFORMATS'']) ''AL_FORMAT_QUAD16''
       = alGetEnumValue mc_device (trace empty_world) ''AL_FORMAT_QUAD16''
   \<and> trace (snd (getALFormat_fmt mc_device quad16_source empty_world))
       = [AlGetEnumValue ''AL_FORMAT_QUAD16'', AlIsExtensionPresent ''AL_EXT_MCFORMATS'',
          AlGetEnumValue ''AL_FORMAT_QUAD16'']
   \<and> fst (getALFormat_fmt mc_device quad16_source empty_world) = 0x1205
   \<and> fst (getALFormat_fmt (mc_device\<lparr>alIsExtensionPresent := \<lambda>_. False\<rparr>) quad16_source
             empty_world) = 0x1205
   \<and> fst (getALFormat mc_device quad16_source empty_world)
       = fst (getALFormat (mc_device\<lparr>alIsExtensionPresent := \<lambda>_. False\<rparr>) quad16_source
                empty_world)
   \<and> alIsExtensionPresent late_quad_device ''AL_EXT_MCFORMATS''
   \<and> fst (getALFormat_fmt late_quad_device quad16_source empty_world) = 0x1205
   \<and> fst (getALFormat_fmt (late_quad_device\<lparr>alIsExtensionPresent := \<lambda>_. False\<rparr>)
             quad16_source empty_world) = 0"
proof -
  have h: "alIsExtensionPresent mc_device ''AL_EXT_MCFORMATS''"
    "channels quad16_source = 4" "bits quad16_source = 16"
    by (simp_all add: mc_device_def example_device_def quad16_source_def)
  have h': "alIsExtensionPresent late_quad_device ''AL_EXT_MCFORMATS''"
    by (simp add: late_quad_device_def example_device_def)
  have v: "alGetEnumValue mc_device tr ''AL_FORMAT_QUAD16'' = 0x1205" "trace empty_world = []"
    "alGetEnumValue late_quad_device [] ''AL_FORMAT_QUAD16'' = 0"
    "alGetEnumValue late_quad_device [AlGetEnumValue ''AL_FORMAT_QUAD16'',
        AlIsExtensionPresent ''AL_EXT_MCFORMATS''] ''AL_FORMAT_QUAD16'' = 0x1205"
    for tr
    by (simp_all add: mc_device_def late_quad_device_def example_device_def empty_world_def)
  show ?thesis
    using h h' getALFormat_quad16_double_assignment [OF h, of empty_world]
      getALFormat_quad16_double_assignment [OF h' h(2,3), of empty_world]
    by (simp add: v)
qed

text \<open>
  C10. With the multichannel extension absent and a 16-bit source of 4 channels, the tag
  is what the device's lookup of \<^verbatim>\<open>AL_FORMAT_QUAD16\<close> yields (one lookup, made before
  the extension test); when the lookup yields \<open>0\<close>, format resolution fails with
  \<^verbatim>\<open>OpenAL exception: Unsupported input format\<close>, and otherwise it returns that value and
  the rate.
\<close>

theorem getALFormat_quad16_without_extension:
  assumes "\<not> alIsExtensionPresent dev ''AL_EXT_MCFORMATS''"
    and "channels inp = 4" and "bits inp = 16"
  shows "trace (snd (getALFormat_fmt dev inp w))
           = trace w @ [AlGetEnumValue ''AL_FORMAT_QUAD16'',
                        AlIsExtensionPresent ''AL_EXT_MCFORMATS'']
         \<and> fst (getALFormat_fmt dev inp w)
             = alGetEnumValue dev (trace w) ''AL_FORMAT_QUAD16''
         \<and> (alGetEnumValue dev (trace w) ''AL_FORMAT_QUAD16'' = 0 \<longrightarrow>
              fst (getALFormat dev inp w)
                = Inl (Str_exception ''OpenAL exception: Unsupported input format''))
         \<and> (alGetEnumValue dev (trace w) ''AL_FORMAT_QUAD16'' \<noteq> 0 \<longrightarrow>
              fst (getALFormat dev inp w)
                = Inr (alGetEnumValue dev (trace w) ''AL_FORMAT_QUAD16'', rate inp))"
  using assms by (simp add: getALFormat_defs al_consts fail_def split_def call_def)

text \<open>
  C10, on a device without the extension whose lookup yields \<open>0\<close>, and on one whose
  lookup yields \<open>0x1205\<close>.
\<close>

theorem getALFormat_quad16_without_extension_witness:
  "\<not> alIsExtensionPresent quiet_device ''AL_EXT_MCFORMATS''
   \<and> \<not> alIsExtensionPresent quad_device ''AL_EXT_MCFORMATS''
   \<and> channels quad16_source = 4 \<and> bits quad16_source = 16
   \<and> alGetEnumValue quiet_device (trace empty_world) ''AL_FORMAT_QUAD16'' = 0
   \<and> fst (getALFormat quiet_device quad16_source empty_world)
       = Inl (Str_exception ''OpenAL exception: Unsupported input format'')
   \<and> alGetEnumValue quad_device (trace empty_world) ''AL_FORMAT_QUAD16'' \<noteq> 0
   \<and> fst (getALFormat quad_device quad16_source empty_world) = Inr (0x1205, 44100)"
proof -
  have h: "\<not> alIsExtensionPresent quiet_device ''AL_EXT_MCFORMATS''"
    "channels quad16_source = 4" "bits quad16_source = 16"
    by (simp_all add: quiet_device_def example_device_def quad16_source_def)
  have h': "\<not> alIsExtensionPresent quad_device ''AL_EXT_MCFORMATS''"
    by (simp add: quad_device_def example_device_def)
  have v: "alGetEnumValue quiet_device tr ''AL_FORMAT_QUAD16'' = 0"
    "alGetEnumValue quad_device tr ''AL_FORMAT_QUAD16'' = 0x1205" "rate quad16_source = 44100"
    for tr
    by (simp_all add: quiet_device_def quad_device_def example_device_def quad16_source_def)
  show ?thesis
    using h h' getALFormat_quad16_without_extension [OF h, of empty_world]
      getALFormat_quad16_without_extension [OF h' h(2,3), of empty_world]
    by (simp add: v)
qed

subsection \<open>The factory\<close>

lemma live_devices_snoc2:
  "live_devices (tr @ [AlcOpenDevice d, AlcCreateContext d' c])
     = (if d = 0 then live_devices tr else insert d (live_devices tr))"
  by (simp add: live_devices_def split_def) (cases "fold live_step tr ({}, {})", simp)

lemma live_contexts_snoc2:
  "live_contexts (tr @ [AlcOpenDevice d, AlcCreateContext d' c])
     = (if c = 0 then live_contexts tr else insert c (live_contexts tr))"
  by (simp add: live_contexts_def split_def) (cases "fold live_step tr ({}, {})", simp)

text \<open>
  C6, as stated, fails: on a device that opens (handle \<open>1\<close>) but cannot create a context,
  construction with setup raises the setup failure and the opened device is still live
  afterwards, since the constructor throws without closing it.
\<close>

theorem Factory_ctor_failure_leaves_device_open:
  "fst (OpenAL_Factory_ctor no_context_device True empty_world)
     = Inl (Str_exception ''OpenAL exception: Failed to initialize context or device'')
   \<and> live_devices (trace (snd (OpenAL_Factory_ctor no_context_device True empty_world))) = {1}"
  by (simp add: OpenAL_Factory_ctor_def no_context_device_def example_defs call_def fail_def
      Let_def live_devices_def)

text \<open>
  C6, amended. When setup is requested and the device handle \<open>d\<close> or the context handle
  \<open>c\<close> comes back null, construction raises the setup failure
  \<^verbatim>\<open>OpenAL exception: Failed to initialize context or device\<close> after exactly the two calls
  that open the device and create the context: no context is made current and no
  teardown call is made. A handle that came back non-null stays live; when both came
  back null, the live handles are those from before.
\<close>

theorem Factory_ctor_failure:
  assumes "alcOpenDevice dev (trace w) = d"
    and "alcCreateContext dev (trace w @ [AlcOpenDevice d]) d = c"
    and "d = 0 \<or> c = 0"
  shows "OpenAL_Factory_ctor dev True w
           = (Inl (Str_exception ''OpenAL exception: Failed to initialize context or device''),
              w\<lparr>trace := trace w @ [AlcOpenDevice d, AlcCreateContext d c]\<rparr>)
         \<and> live_devices (trace (snd (OpenAL_Factory_ctor dev True w)))
             = (if d = 0 then live_devices (trace w) else insert d (live_devices (trace w)))
         \<and> live_contexts (trace (snd (OpenAL_Factory_ctor dev True w)))
             = (if c = 0 then live_contexts (trace w) else insert c (live_contexts (trace w)))"
proof -
  have 1: "OpenAL_Factory_ctor dev True w
           = (Inl (Str_exception ''OpenAL exception: Failed to initialize context or device''),
              w\<lparr>trace := trace w @ [AlcOpenDevice d, AlcCreateContext d c]\<rparr>)"
    using assms by (auto simp add: OpenAL_Factory_ctor_def Let_def call_def fail_def)
  show ?thesis unfolding 1 by (simp add: live_devices_snoc2 live_contexts_snoc2)
qed

text \<open>C6, amended, on the device that opens but cannot create a context.\<close>

theorem Factory_ctor_failure_witness:
  "alcOpenDevice no_context_device (trace empty_world) = 1
   \<and> alcCreateContext no_context_device (trace empty_world @ [AlcOpenDevice 1]) 1 = 0
   \<and> OpenAL_Factory_ctor no_context_device True empty_world
       = (Inl (Str_exception ''OpenAL exception: Failed to initialize context or device''),
          empty_world\<lparr>trace := [AlcOpenDevice 1, AlcCreateContext 1 0]\<rparr>)
   \<and> live_devices (trace (snd (OpenAL_Factory_ctor no_context_device True empty_world))) = {1}
   \<and> live_contexts (trace (snd (OpenAL_Factory_ctor no_context_device True empty_world))) = {}"
proof -
  have h: "alcOpenDevice no_context_device (trace empty_world) = 1"
    "alcCreateContext no_context_device (trace empty_world @ [AlcOpenDevice 1]) 1 = 0"
    "(1::nat) = 0 \<or> (0::nat) = 0"
    by (simp_all add: no_context_device_def example_device_def)
  have e: "trace empty_world = []" "live_devices [] = {}" "live_contexts [] = {}"
    by (simp_all add: empty_world_def live_devices_def live_contexts_def)
  show ?thesis
    using h(1,2) Factory_ctor_failure [OF h]
    by (simp add: e live_devices_def live_contexts_def)
qed

text \<open>
  C8. Destroying a factory that performed setup makes exactly the calls: unbind the
  current context, destroy the context if it is non-null, close the device if it is
  non-null, in that order; destroying a factory that did not perform setup makes no
  call. For a factory that its constructor built with setup, both handles are non-null
  and all three calls are made; for one built without setup, none.
\<close>

theorem Factory_dtor_teardown:
  "(didSetup f \<and> Context f = Some c \<and> Device f = Some d \<longrightarrow>
      OpenAL_Factory_dtor f w
        = (Inr (), w\<lparr>trace := trace w @ [AlcMakeContextCurrent 0]
                                 @ (if c \<noteq> 0 then [AlcDestroyContext c] else [])
                                 @ (if d \<noteq> 0 then [AlcCloseDevice d] else [])\<rparr>)) \<and>
   (\<not> didSetup f \<longrightarrow> OpenAL_Factory_dtor f w = (Inr (), w)) \<and>
   (OpenAL_Factory_ctor dev True w0 = (Inr f, w) \<longrightarrow>
      (\<exists>c d. Context f = Some c \<and> Device f = Some d \<and> c \<noteq> 0 \<and> d \<noteq> 0
         \<and> OpenAL_Factory_dtor f w
             = (Inr (), w\<lparr>trace := trace w @ [AlcMakeContextCurrent 0, AlcDestroyContext c,
                                               AlcCloseDevice d]\<rparr>))) \<and>
   (OpenAL_Factory_ctor dev False w0 = (Inr f, w) \<longrightarrow>
      OpenAL_Factory_dtor f w = (Inr (), w))"
  by (auto simp add: OpenAL_Factory_dtor_def OpenAL_Factory_ctor_def Let_def call_def
      split: if_splits)

text \<open>
  C8, on the factories that the constructor builds on \<open>quiet_device\<close> with and without
  setup.
\<close>

theorem Factory_dtor_teardown_witness:
  "OpenAL_Factory_ctor quiet_device True empty_world = (Inr factory_A, world_F)
   \<and> didSetup factory_A \<and> Context factory_A = Some 2 \<and> Device factory_A = Some 1
   \<and> OpenAL_Factory_dtor factory_A world_F
       = (Inr (), world_F\<lparr>trace := trace world_F @ [AlcMakeContextCurrent 0,
                                       AlcDestroyContext 2, AlcCloseDevice 1]\<rparr>)
   \<and> OpenAL_Factory_ctor quiet_device False empty_world = (Inr factory_B, empty_world)
   \<and> \<not> didSetup factory_B
   \<and> OpenAL_Factory_dtor factory_B empty_world = (Inr (), empty_world)"
proof -
  have a: "OpenAL_Factory_ctor quiet_device True empty_world = (Inr factory_A, world_F)"
    "OpenAL_Factory_ctor quiet_device False empty_world = (Inr factory_B, empty_world)"
    by (simp_all add: OpenAL_Factory_ctor_def quiet_device_def example_device_def
        empty_world_def factory_A_def factory_B_def world_F_def call_def Let_def)
  have b: "didSetup factory_A" "Context factory_A = Some 2" "Device factory_A = Some 1"
    "\<not> didSetup factory_B"
    by (simp_all add: factory_A_def factory_B_def)
  show ?thesis
    using a b Factory_dtor_teardown [of factory_A 2 1 world_F quiet_device empty_world]
      Factory_dtor_teardown [of factory_B 0 0 empty_world quiet_device empty_world]
    by simp
qed

subsection \<open>Sounds: volume\<close>

text \<open>
  C9. For every float \<open>v\<close>, \<^verbatim>\<open>setVolume\<close> passes \<open>min(max(v, 0.0), 1.0)\<close> to the device as
  the gain of its source and then runs the gate; the call is made for every \<open>v\<close>, none
  is rejected. \<open>-0.5\<close> is applied as \<open>0.0\<close>, \<open>1.7\<close> as \<open>1.0\<close>, and every value in
  \<open>[0.0, 1.0]\<close>, such as \<open>0.3\<close>, unchanged.
\<close>

theorem setVolume_clamps:
  "OpenAL_Sound_setVolume dev s v w
     = checkALError dev ''setting volume'' (call (AlSourcef (inst s) AL_GAIN (clamp_spec v)) w)
   \<and> (\<exists>rest. trace (snd (OpenAL_Sound_setVolume dev s v w))
        = trace w @ AlSourcef (inst s) AL_GAIN (clamp_spec v) # AlGetError # rest)
   \<and> clamp_spec (Finite (- 1 / 2)) = Finite 0
   \<and> clamp_spec (Finite (17 / 10)) = Finite 1
   \<and> clamp_spec (Finite (3 / 10)) = Finite (3 / 10)
   \<and> (\<forall>x. 0 \<le> x \<and> x \<le> 1 \<longrightarrow> clamp_spec (Finite x) = Finite x)"
proof -
  have eq: "(let volume1 = (if float_less (Finite 1) v then Finite 1 else v)
             in if float_less volume1 (Finite 0) then Finite 0 else volume1) = clamp_spec v"
    by (cases v) (auto simp add: clamp_spec_def float_min_def float_max_def Let_def)
  have 1: "OpenAL_Sound_setVolume dev s v w
     = checkALError dev ''setting volume'' (call (AlSourcef (inst s) AL_GAIN (clamp_spec v)) w)"
    unfolding OpenAL_Sound_setVolume_def eq [symmetric] by (simp add: Let_def)
  have 2: "\<exists>rest. trace (snd (OpenAL_Sound_setVolume dev s v w))
        = trace w @ AlSourcef (inst s) AL_GAIN (clamp_spec v) # AlGetError # rest"
    unfolding 1
    using checkALError_trace_prefix
      [of dev "''setting volume''" "call (AlSourcef (inst s) AL_GAIN (clamp_spec v)) w"]
    by (simp add: call_def)
  have 3: "clamp_spec (Finite (- 1 / 2)) = Finite 0" "clamp_spec (Finite (17 / 10)) = Finite 1"
     "clamp_spec (Finite (3 / 10)) = Finite (3 / 10)"
     "\<forall>x. 0 \<le> x \<and> x \<le> 1 \<longrightarrow> clamp_spec (Finite x) = Finite x"
    by (auto simp add: clamp_spec_def float_min_def float_max_def)
  from 1 2 3 show ?thesis by blast
qed

text \<open>C9, at the volume \<open>0.3\<close> on \<open>sound_A\<close>.\<close>

theorem setVolume_clamps_witness:
  "(0::real) \<le> 3 / 10 \<and> (3 / 10 :: real) \<le> 1
   \<and> OpenAL_Sound_setVolume quiet_device sound_A (Finite (3 / 10)) world_A
       = checkALError quiet_device ''setting volume''
           (call (AlSourcef (inst sound_A) AL_GAIN (Finite (3 / 10))) world_A)"
  using setVolume_clamps [of quiet_device sound_A "Finite (3 / 10)" world_A] by simp

subsection \<open>Sounds: construction, cloning and destruction\<close>

lemma ctor_example:
  "OpenAL_Sound_ctor quiet_device mono8_source empty_world = (Inr sound_A, world_A)"
  by (simp add: OpenAL_Sound_ctor_def getALFormat_defs checkALError_def new_int_def call_def
      al_consts AL_BUFFER_def example_defs ALsizei_of_def)

text \<open>The clone constructor writes nothing to the free store and uploads no sample data.\<close>

lemma clone_ctor_heap_unchanged:
  "heap (snd (OpenAL_Sound_clone_ctor dev buf ref w)) = heap w"
  by (simp add: OpenAL_Sound_clone_ctor_def Let_def split_def call_def checkALError_heap
      split: ptr.splits sum.splits)

lemma checkALError_no_upload:
  "AlBufferData b f d n r \<in> set (trace (snd (checkALError dev x w)))
     \<longleftrightarrow> AlBufferData b f d n r \<in> set (trace w)"
  by (simp add: checkALError_def Let_def call_def split: option.splits)

lemma call_no_upload:
  "AlBufferData b f d n r \<in> set (trace (call c w))
     \<longleftrightarrow> c = AlBufferData b f d n r \<or> AlBufferData b f d n r \<in> set (trace w)"
  by (auto simp add: call_def)

lemma clone_ctor_no_upload:
  "AlBufferData b f d n r \<in> set (trace (snd (OpenAL_Sound_clone_ctor dev buf ref w)))
     \<longleftrightarrow> AlBufferData b f d n r \<in> set (trace w)"
  by (simp add: OpenAL_Sound_clone_ctor_def Let_def split_def checkALError_no_upload
      call_no_upload split: ptr.splits sum.splits)

text \<open>
  C1, on the code: cloning \<open>sound_A\<close>, whose counter holds \<open>1\<close>, succeeds and leaves the
  counter at \<open>1\<close>, not \<open>2\<close>; what moved is the clone's pointer, one \<^verbatim>\<open>int\<close> past the
  counter, where there is nothing to read.
\<close>

theorem clone_leaves_counter_unchanged:
  "deref (heap world_A) (refCnt sound_A) = Some 1
   \<and> OpenAL_Sound_clone quiet_device sound_A world_A = (Inr sound_B, world_AB)
   \<and> deref (heap world_AB) (refCnt sound_A) = Some 1
   \<and> refCnt sound_B = Ptr 0 1
   \<and> deref (heap world_AB) (refCnt sound_B) = None"
  by (simp add: OpenAL_Sound_clone_def OpenAL_Sound_clone_ctor_def checkALError_def call_def
      al_consts AL_BUFFER_def example_defs sound_B_def world_AB_def Let_def)

text \<open>
  C2, on the code: with the two owners \<open>sound_A\<close> and its clone \<open>sound_B\<close> alive,
  destroying \<open>sound_A\<close> first brings the counter from \<open>1\<close> to \<open>0\<close>, calls
  \<^verbatim>\<open>alDeleteBuffers\<close> on the buffer that \<open>sound_B\<close> still uses and frees the counter; the
  later destruction of \<open>sound_B\<close> decrements through a pointer that points to no \<^verbatim>\<open>int\<close>.
\<close>

theorem first_destruction_releases_shared_buffer:
  "OpenAL_Sound_dtor quiet_device sound_A world_AB = (Inr (), world_B)
   \<and> bufferID sound_B = bufferID sound_A
   \<and> AlDeleteBuffers (bufferID sound_B) \<in> set (trace world_B)
   \<and> heap world_B 0 = None
   \<and> fst (OpenAL_Sound_dtor quiet_device sound_B world_B) = Inl Undefined_behaviour"
  by (simp add: OpenAL_Sound_dtor_def checkALError_def call_def
      al_consts example_defs sound_B_def world_AB_def world_B_def Let_def)

text \<open>
  C7, as stated, fails: destroying \<open>sound_A\<close>, the only owner of its buffer, on a device
  that reports an error after \<^verbatim>\<open>alDeleteBuffers\<close> raises out of the destructor.
\<close>

theorem Sound_dtor_raises_on_last_owner:
  "fst (OpenAL_Sound_dtor rejecting_device sound_A world_A)
     = Inl (Str_exception (''OpenAL exception: '' @ [CHR 0x22] @ ''Invalid Operation''
                           @ [CHR 0x22] @ '' while deleting buffer''))"
  by (simp add: OpenAL_Sound_dtor_def checkALError_def call_def fail_def
      AL_INVALID_OPERATION_def al_consts example_defs rejecting_device_def Let_def)

text \<open>
  The constructor for original sounds leaves the counter of the new sound at \<open>1\<close>.
\<close>

lemma ctor_counter_is_one:
  assumes "OpenAL_Sound_ctor dev inp w0 = (Inr s, w)"
  shows "deref (heap w) (refCnt s) = Some 1"
  using assms
  by (auto simp add: OpenAL_Sound_ctor_def Let_def split_def new_int_def
      split: sum.splits if_splits)

text \<open>
  When the decrement does not bring the counter to zero, the destructor stops and
  releases the source, stores the decremented counter and asks the device for nothing.
\<close>

lemma Sound_dtor_counter_not_one:
  assumes "deref (heap w) (refCnt s) = Some n" and "n \<noteq> - (2 ^ 31)" and "n \<noteq> 1"
  shows "OpenAL_Sound_dtor dev s w
           = (Inr (), store (refCnt s) (n - 1)
                        (call (AlDeleteSources (inst s)) (call (AlSourceStop (inst s)) w)))"
proof -
  obtain b where "refCnt s = Ptr b 0" and "heap w b = Some n"
    using assms(1) by (cases "refCnt s") (auto split: if_splits)
  then show ?thesis
    using assms(2,3) by (simp add: OpenAL_Sound_dtor_def Let_def call_def)
qed

text \<open>
  C7, amended. An instance built from a sample source has its counter at \<open>1\<close>. For an
  instance whose counter holds \<open>1\<close>, destruction stops the source, releases the source
  and releases the buffer without asking the device for an error in between, and then
  runs the gate once, for \<^verbatim>\<open>deleting buffer\<close>: destruction raises exactly what that gate
  raises, and completes without raising if and only if the device reports no pending
  error at that check. An error that stopping or releasing the source left pending is
  therefore raised as well.
\<close>

theorem Sound_dtor_raises_only_at_gate:
  "(OpenAL_Sound_ctor dev0 inp w0 = (Inr s, w) \<longrightarrow> deref (heap w) (refCnt s) = Some 1)
   \<and> (deref (heap w) (refCnt s) = Some 1 \<longrightarrow>
        fst (OpenAL_Sound_dtor dev s w)
          = fst (checkALError dev ''deleting buffer''
                   (call (AlDeleteBuffers (bufferID s))
                      (store (refCnt s) 0
                         (call (AlDeleteSources (inst s)) (call (AlSourceStop (inst s)) w)))))
        \<and> (fst (OpenAL_Sound_dtor dev s w) = Inr ()) =
            (alGetError dev (trace w @ [AlSourceStop (inst s), AlDeleteSources (inst s),
                                       AlDeleteBuffers (bufferID s)]) = AL_NO_ERROR)
        \<and> (\<exists>rest. trace (snd (OpenAL_Sound_dtor dev s w))
              = trace w @ [AlSourceStop (inst s), AlDeleteSources (inst s),
                           AlDeleteBuffers (bufferID s), AlGetError] @ rest))"
proof -
  have one: "deref (heap w) (refCnt s) = Some 1"
    if "OpenAL_Sound_ctor dev0 inp w0 = (Inr s, w)"
    using that by (rule ctor_counter_is_one)
  have dtor: "fst (OpenAL_Sound_dtor dev s w)
          = fst (checkALError dev ''deleting buffer''
                   (call (AlDeleteBuffers (bufferID s))
                      (store (refCnt s) 0
                         (call (AlDeleteSources (inst s)) (call (AlSourceStop (inst s)) w)))))
        \<and> (fst (OpenAL_Sound_dtor dev s w) = Inr ()) =
            (alGetError dev (trace w @ [AlSourceStop (inst s), AlDeleteSources (inst s),
                                       AlDeleteBuffers (bufferID s)]) = AL_NO_ERROR)
        \<and> (\<exists>rest. trace (snd (OpenAL_Sound_dtor dev s w))
              = trace w @ [AlSourceStop (inst s), AlDeleteSources (inst s),
                           AlDeleteBuffers (bufferID s), AlGetError] @ rest)"
    if c: "deref (heap w) (refCnt s) = Some 1"
  proof -
    obtain b where p: "refCnt s = Ptr b 0" and h: "heap w b = Some 1"
      using c by (cases "refCnt s") (auto split: if_splits)
    define w4 where "w4 = call (AlDeleteBuffers (bufferID s))
                            (store (refCnt s) 0
                               (call (AlDeleteSources (inst s))
                                  (call (AlSourceStop (inst s)) w)))"
    have tr: "trace w4 = trace w @ [AlSourceStop (inst s), AlDeleteSources (inst s),
                                    AlDeleteBuffers (bufferID s)]"
      by (simp add: w4_def p call_def)
    have res: "fst (OpenAL_Sound_dtor dev s w) = fst (checkALError dev ''deleting buffer'' w4)"
      using p h
      by (simp add: OpenAL_Sound_dtor_def Let_def call_def split_def w4_def split: sum.splits)
    have "trace (snd (OpenAL_Sound_dtor dev s w))
            = trace (snd (checkALError dev ''deleting buffer'' w4))"
      using p h
      by (cases "refCnt s")
        (simp_all add: OpenAL_Sound_dtor_def Let_def call_def split_def w4_def
          split: sum.splits)
    moreover obtain rest
      where "trace (snd (checkALError dev ''deleting buffer'' w4))
               = trace w4 @ AlGetError # rest"
      using checkALError_trace_prefix [of dev "''deleting buffer''" w4] by blast
    ultimately have "trace (snd (OpenAL_Sound_dtor dev s w))
            = trace w @ [AlSourceStop (inst s), AlDeleteSources (inst s),
                         AlDeleteBuffers (bufferID s), AlGetError] @ rest"
      by (simp add: tr)
    then have ex: "\<exists>rest. trace (snd (OpenAL_Sound_dtor dev s w))
              = trace w @ [AlSourceStop (inst s), AlDeleteSources (inst s),
                           AlDeleteBuffers (bufferID s), AlGetError] @ rest"
      by blast
    show ?thesis
      using res ex checkALError_returns_iff [of dev "''deleting buffer''" w4]
      by (simp add: tr w4_def [symmetric])
  qed
  from one dtor show ?thesis by blast
qed

text \<open>
  C7, amended, on \<open>sound_A\<close>, which the constructor builds from \<open>mono8_source\<close>: its
  destruction completes on a quiet device; it raises on the device that rejects the
  deletion, also while the clone \<open>sound_B\<close> is alive; and on the device where stopping the
  source raises an error, that error is raised by the gate for \<^verbatim>\<open>deleting buffer\<close>.
\<close>

theorem Sound_dtor_raises_only_at_gate_witness:
  "OpenAL_Sound_ctor quiet_device mono8_source empty_world = (Inr sound_A, world_A)
   \<and> deref (heap world_A) (refCnt sound_A) = Some 1
   \<and> fst (OpenAL_Sound_dtor quiet_device sound_A world_A) = Inr ()
   \<and> fst (OpenAL_Sound_dtor rejecting_device sound_A world_A) \<noteq> Inr ()
   \<and> deref (heap world_AB) (refCnt sound_A) = Some 1
   \<and> fst (OpenAL_Sound_dtor rejecting_device sound_A world_AB) \<noteq> Inr ()
   \<and> alGetError stop_error_device (trace world_A @ [AlSourceStop 15]) = AL_INVALID_OPERATION
   \<and> fst (OpenAL_Sound_dtor stop_error_device sound_A world_A)
       = Inl (Str_exception (''OpenAL exception: '' @ [CHR 0x22] @ ''Invalid Operation''
                             @ [CHR 0x22] @ '' while deleting buffer''))"
proof -
  note c = ctor_example
  have h1: "deref (heap world_A) (refCnt sound_A) = Some 1"
    using Sound_dtor_raises_only_at_gate
      [of quiet_device mono8_source empty_world sound_A world_A] c
    by blast
  have h2: "deref (heap world_AB) (refCnt sound_A) = Some 1"
    by (simp add: world_AB_def world_A_def sound_A_def)
  have e: "alGetError quiet_device tr = AL_NO_ERROR"
    "alGetError rejecting_device (tr @ [AlSourceStop (inst sound_A),
        AlDeleteSources (inst sound_A), AlDeleteBuffers (bufferID sound_A)]) \<noteq> AL_NO_ERROR"
    "alGetError stop_error_device (trace world_A @ [AlSourceStop 15]) = AL_INVALID_OPERATION"
    for tr
    by (simp_all add: quiet_device_def rejecting_device_def stop_error_device_def
        example_device_def sound_A_def world_A_def AL_INVALID_OPERATION_def AL_NO_ERROR_def)
  have q: "fst (OpenAL_Sound_dtor quiet_device sound_A world_A) = Inr ()"
    using Sound_dtor_raises_only_at_gate [of quiet_device _ _ sound_A world_A quiet_device]
      h1 e(1)
    by blast
  have r: "fst (OpenAL_Sound_dtor rejecting_device sound_A world_A) \<noteq> Inr ()"
    using Sound_dtor_raises_only_at_gate [of quiet_device _ _ sound_A world_A rejecting_device]
      h1 e(2) [of "trace world_A"]
    by blast
  have r': "fst (OpenAL_Sound_dtor rejecting_device sound_A world_AB) \<noteq> Inr ()"
    using Sound_dtor_raises_only_at_gate [of quiet_device _ _ sound_A world_AB rejecting_device]
      h2 e(2) [of "trace world_AB"]
    by blast
  have g: "fst (checkALError stop_error_device ''deleting buffer''
                  (call (AlDeleteBuffers (bufferID sound_A))
                     (store (refCnt sound_A) 0
                        (call (AlDeleteSources (inst sound_A))
                           (call (AlSourceStop (inst sound_A)) world_A)))))
             = Inl (Str_exception (''OpenAL exception: '' @ [CHR 0x22] @ ''Invalid Operation''
                                   @ [CHR 0x22] @ '' while deleting buffer''))"
    by (simp add: checkALError_def call_def fail_def stop_error_device_def example_device_def
        sound_A_def world_A_def AL_INVALID_OPERATION_def AL_NO_ERROR_def Let_def)
  have t: "fst (OpenAL_Sound_dtor stop_error_device sound_A world_A)
       = Inl (Str_exception (''OpenAL exception: '' @ [CHR 0x22] @ ''Invalid Operation''
                             @ [CHR 0x22] @ '' while deleting buffer''))"
    using Sound_dtor_raises_only_at_gate
      [of quiet_device _ _ sound_A world_A stop_error_device] h1 g
    by metis
  show ?thesis
    using c h1 h2 q r r' e(3) t by blast
qed

end
